theory Spec2Isabelle
  imports Complex_Main
begin

section \<open>JavaScript values\<close>

text \<open>
  The client is a React/TypeScript front end. Values that cross the wire untyped
  (message metadata, the result of \<open>JSON.parse\<close>) are modelled by the datatype \<open>js\<close>:
  the JSON values and \<open>undefined\<close>. Strings are byte lists; numbers are exact
  rationals (no claim below depends on rounding). \<open>truthy\<close> is the ToBoolean of
  ECMAScript, which every \<open>!x\<close>, \<open>x && y\<close> and \<open>x || y\<close> of the source goes through.
\<close>

datatype js = Undefined | Null | Bool bool | Num rat | Str string
  | Arr "js list" | Obj "(string \<times> js) list"

fun truthy :: "js \<Rightarrow> bool" where
  "truthy Undefined = False"
| "truthy Null = False"
| "truthy (Bool b) = b"
| "truthy (Num n) = (n \<noteq> 0)"
| "truthy (Str s) = (s \<noteq> [])"
| "truthy (Arr xs) = True"
| "truthy (Obj fs) = True"

text \<open>
  Property access \<open>v.k\<close>: an own property of an object, \<open>undefined\<close> otherwise
  (the keys the source reads, \<open>sources\<close> and \<open>exp\<close>, are not properties of strings,
  numbers, booleans or arrays). On \<open>null\<close> and \<open>undefined\<close> the access throws; the
  source guards each access with \<open>&&\<close>, and the model does the same with \<open>truthy\<close>.
\<close>

fun js_prop :: "js \<Rightarrow> string \<Rightarrow> js" where
  "js_prop (Obj fs) k = (case map_of fs k of Some v \<Rightarrow> v | None \<Rightarrow> Undefined)"
| "js_prop v k = Undefined"

fun is_string :: "js \<Rightarrow> bool" where
  "is_string (Str s) = True"
| "is_string v = False"

subsection \<open>The built-in \<open>JSON.parse\<close>\<close>

text \<open>
  \<open>JSON.parse\<close> is a built-in of the platform, modelled here by a recursive-descent
  parser of the JSON grammar (ECMA-404): \<open>None\<close> is the SyntaxError it throws.
  The fuel of \<open>parse_value\<close> bounds the nesting depth by the length of the text. An
  escape \<open>\<^verbatim>\<open>\uXXXX\<close>\<close> yields the UTF-8 bytes of that code unit; a key that occurs
  twice keeps its first position and its last value.
\<close>

definition is_ws :: "char \<Rightarrow> bool" where
  "is_ws c = (c = CHR '' '' \<or> c = CHR 0x09 \<or> c = CHR 0x0A \<or> c = CHR 0x0D)"

definition skip_ws :: "string \<Rightarrow> string" where
  "skip_ws cs = dropWhile is_ws cs"

definition is_digit :: "char \<Rightarrow> bool" where
  "is_digit c = (c \<in> set ''0123456789'')"

definition digits_val :: "string \<Rightarrow> nat" where
  "digits_val ds = foldl (\<lambda>n d. 10 * n + (of_char d - 48)) 0 ds"

definition hex_val :: "char \<Rightarrow> nat option" where
  "hex_val c =
     (let n = (of_char c :: nat) in
      if 48 \<le> n \<and> n \<le> 57 then Some (n - 48)
      else if 65 \<le> n \<and> n \<le> 70 then Some (n - 55)
      else if 97 \<le> n \<and> n \<le> 102 then Some (n - 87)
      else None)"

definition utf8_of_unit :: "nat \<Rightarrow> string" where
  "utf8_of_unit n =
     (if n < 128 then [char_of n]
      else if n < 2048 then [char_of (192 + n div 64), char_of (128 + n mod 64)]
      else [char_of (224 + n div 4096), char_of (128 + (n div 64) mod 64),
            char_of (128 + n mod 64)])"

definition simple_escape :: "char \<Rightarrow> char option" where
  "simple_escape e =
     (if e = CHR 0x22 then Some (CHR 0x22)
      else if e = CHR 0x5C then Some (CHR 0x5C)
      else if e = CHR ''/'' then Some (CHR ''/'')
      else if e = CHR ''b'' then Some (CHR 0x08)
      else if e = CHR ''f'' then Some (CHR 0x0C)
      else if e = CHR ''n'' then Some (CHR 0x0A)
      else if e = CHR ''r'' then Some (CHR 0x0D)
      else if e = CHR ''t'' then Some (CHR 0x09)
      else None)"

fun parse_string_body :: "string \<Rightarrow> string \<Rightarrow> (string \<times> string) option" where
  "parse_string_body acc [] = None"
| "parse_string_body acc (c # cs) =
     (if c = CHR 0x22 then Some (acc, cs)
      else if c = CHR 0x5C then
        (case cs of
           [] \<Rightarrow> None
         | e # r \<Rightarrow>
             if e = CHR ''u'' then
               (case r of
                  h1 # h2 # h3 # h4 # r' \<Rightarrow>
                    (case (hex_val h1, hex_val h2, hex_val h3, hex_val h4) of
                       (Some a, Some b, Some c', Some d) \<Rightarrow>
                         parse_string_body
                           (acc @ utf8_of_unit (4096 * a + 256 * b + 16 * c' + d)) r'
                     | _ \<Rightarrow> None)
                | _ \<Rightarrow> None)
             else
               (case simple_escape e of
                  Some x \<Rightarrow> parse_string_body (acc @ [x]) r
                | None \<Rightarrow> None))
      else if (of_char c :: nat) < 32 then None
      else parse_string_body (acc @ [c]) cs)"

definition parse_number :: "string \<Rightarrow> (js \<times> string) option" where
  "parse_number cs =
     (let neg = (take 1 cs = ''-'');
          cs1 = (if neg then drop 1 cs else cs);
          ip = takeWhile is_digit cs1;
          cs2 = dropWhile is_digit cs1;
          has_frac = (take 1 cs2 = ''.'');
          fp = (if has_frac then takeWhile is_digit (drop 1 cs2) else []);
          cs3 = (if has_frac then dropWhile is_digit (drop 1 cs2) else cs2);
          has_exp = (take 1 cs3 = ''e'' \<or> take 1 cs3 = ''E'');
          cs4 = drop 1 cs3;
          eneg = (take 1 cs4 = ''-'');
          cs5 = (if take 1 cs4 = ''-'' \<or> take 1 cs4 = ''+'' then drop 1 cs4 else cs4);
          ed = (if has_exp then takeWhile is_digit cs5 else []);
          cs6 = (if has_exp then dropWhile is_digit cs5 else cs3);
          m = (of_nat (digits_val ip) + of_nat (digits_val fp) / 10 ^ length fp :: rat);
          scaled = (if eneg then m / 10 ^ digits_val ed else m * 10 ^ digits_val ed)
      in if ip = [] \<or> (length ip > 1 \<and> take 1 ip = ''0'') then None
         else if has_frac \<and> fp = [] then None
         else if has_exp \<and> ed = [] then None
         else Some (Num (if neg then - scaled else scaled), cs6))"

definition obj_put :: "string \<Rightarrow> js \<Rightarrow> (string \<times> js) list \<Rightarrow> (string \<times> js) list" where
  "obj_put k v fs = (if k \<in> fst ` set fs then map (\<lambda>(k', v'). if k' = k then (k', v) else (k', v')) fs else fs @ [(k, v)])"

fun parse_value :: "nat \<Rightarrow> string \<Rightarrow> (js \<times> string) option"
and parse_elements :: "nat \<Rightarrow> js list \<Rightarrow> string \<Rightarrow> (js \<times> string) option"
and parse_members :: "nat \<Rightarrow> (string \<times> js) list \<Rightarrow> string \<Rightarrow> (js \<times> string) option"
where
  "parse_value 0 cs = None"
| "parse_value (Suc n) cs =
     (case skip_ws cs of
        [] \<Rightarrow> None
      | c # r \<Rightarrow>
          if c = CHR ''{'' then
            (case skip_ws r of
               [] \<Rightarrow> None
             | d # r' \<Rightarrow> if d = CHR ''}'' then Some (Obj [], r') else parse_members n [] (d # r'))
          else if c = CHR ''['' then
            (case skip_ws r of
               [] \<Rightarrow> None
             | d # r' \<Rightarrow> if d = CHR '']'' then Some (Arr [], r') else parse_elements n [] (d # r'))
          else if c = CHR 0x22 then
            (case parse_string_body [] r of
               None \<Rightarrow> None
             | Some (s, r') \<Rightarrow> Some (Str s, r'))
          else if c = CHR ''-'' \<or> is_digit c then parse_number (c # r)
          else if take 4 (c # r) = ''true'' then Some (Bool True, drop 4 (c # r))
          else if take 5 (c # r) = ''false'' then Some (Bool False, drop 5 (c # r))
          else if take 4 (c # r) = ''null'' then Some (Null, drop 4 (c # r))
          else None)"
| "parse_elements 0 acc cs = None"
| "parse_elements (Suc n) acc cs =
     (case parse_value n cs of
        None \<Rightarrow> None
      | Some (v, r) \<Rightarrow>
          (case skip_ws r of
             [] \<Rightarrow> None
           | d # r' \<Rightarrow>
               if d = CHR '','' then parse_elements n (acc @ [v]) r'
               else if d = CHR '']'' then Some (Arr (acc @ [v]), r')
               else None))"
| "parse_members 0 acc cs = None"
| "parse_members (Suc n) acc cs =
     (case skip_ws cs of
        [] \<Rightarrow> None
      | c # r \<Rightarrow>
          if c \<noteq> CHR 0x22 then None
          else
            (case parse_string_body [] r of
               None \<Rightarrow> None
             | Some (k, r1) \<Rightarrow>
                 (case skip_ws r1 of
                    [] \<Rightarrow> None
                  | d # r2 \<Rightarrow>
                      if d \<noteq> CHR '':'' then None
                      else
                        (case parse_value n r2 of
                           None \<Rightarrow> None
                         | Some (v, r3) \<Rightarrow>
                             (case skip_ws r3 of
                                [] \<Rightarrow> None
                              | e # r4 \<Rightarrow>
                                  if e = CHR '','' then parse_members n (obj_put k v acc) r4
                                  else if e = CHR ''}'' then Some (Obj (obj_put k v acc), r4)
                                  else None)))))"

definition JSON_parse :: "string \<Rightarrow> js option" where
  "JSON_parse text =
     (case parse_value (Suc (length text)) text of
        None \<Rightarrow> None
      | Some (v, r) \<Rightarrow> if skip_ws r = [] then Some v else None)"

section \<open>The chat component (ChatInterface.tsx)\<close>

subsection \<open>Data\<close>

text \<open>
  The interfaces \<open>ChatMessage\<close> and \<open>ChatSession\<close> of the source. The field \<open>id\<close> is
  named \<open>msg_id\<close> and \<open>session_id\<close> here. \<open>metadata\<close> is declared
  \<open>string | { sources?: SourceCitation[] }\<close> and optional: it is a \<open>js\<close> value,
  \<open>Undefined\<close> when absent.
\<close>

datatype role = User | Ai

record ChatMessage =
  msg_id :: int
  session :: int
  role :: role
  content :: string
  timestamp :: string
  metadata :: js

record ChatSession =
  session_id :: int
  title :: string
  created_at :: string

text \<open>
  What the component does to the outside world, in order: requests through the
  \<open>fetchWithAuth\<close> prop (method, URL, the value given to \<open>JSON.stringify\<close> as body),
  sockets opened and closed, data written to a socket, and timers set (delay in ms and
  the session id the callback has captured).
\<close>

datatype effect =
    HttpRequest string string js
  | WsOpen nat string
  | WsClose nat
  | WsSend nat string
  | SetTimeout nat int

text \<open>
  How an awaited request ends, as the handler sees it: the promise of \<open>fetchWithAuth\<close>
  or of \<open>response.json()\<close> rejects with an error of the given message; the response is
  not \<open>ok\<close> and its body is an object of string fields; or it is \<open>ok\<close> with a body of
  the type the handler casts it to.
\<close>

datatype 'a fetched = Threw string | NotOk "(string \<times> string) list" | Ok 'a

text \<open>\<open>errorData.k || dflt\<close>.\<close>

definition or_default :: "(string \<times> string) list \<Rightarrow> string \<Rightarrow> string \<Rightarrow> string" where
  "or_default errorData k dflt =
     (case map_of errorData k of
        Some s \<Rightarrow> if s \<noteq> [] then s else dflt
      | None \<Rightarrow> dflt)"

text \<open>
  The \<open>err.message\<close> that reaches the \<open>catch\<close> block of a handler, if any: of the
  rejection, or of the \<open>Error\<close> the handler throws at a response that is not \<open>ok\<close>.
\<close>

definition caught :: "string \<Rightarrow> string \<Rightarrow> 'a fetched \<Rightarrow> string option" where
  "caught k dflt outcome =
     (case outcome of
        Threw m \<Rightarrow> Some m
      | NotOk errorData \<Rightarrow> Some (or_default errorData k dflt)
      | Ok data \<Rightarrow> None)"

record ChatInterface =
  sessions :: "ChatSession list"
  selectedSessionId :: "int option"
  messages :: "ChatMessage list"
  newMessageContent :: string
  loadingSessions :: bool
  errorSessions :: "string option"
  loadingMessages :: bool
  errorMessages :: "string option"
  sendingMessage :: bool
  sendMessageError :: "string option"
  ws :: "nat option"
  ws_cleanup :: bool
  sockets :: nat
  access_token :: "string option"
  effects :: "effect list"

text \<open>
  Besides the state hooks and the \<open>ws\<close> ref of the source, the record holds
  \<open>ws_cleanup\<close> (the last run of the socket effect returned its cleanup function),
  \<open>sockets\<close> (how many sockets were created, the number of the next one),
  \<open>access_token\<close> (the entry of \<open>localStorage\<close>) and the log \<open>effects\<close>.
\<close>

text \<open>The state of the first render: the initial values of the hooks.\<close>

definition initial :: "string option \<Rightarrow> ChatInterface" where
  "initial token =
     \<lparr>sessions = [], selectedSessionId = None, messages = [], newMessageContent = [],
      loadingSessions = True, errorSessions = None, loadingMessages = False,
      errorMessages = None, sendingMessage = False, sendMessageError = None,
      ws = None, ws_cleanup = False, sockets = 0, access_token = token, effects = []\<rparr>"

text \<open>
  A \<open>string | null\<close> in a condition: \<open>null\<close> and the empty string are falsy.
\<close>

definition given :: "string option \<Rightarrow> bool" where
  "given x = (case x of None \<Rightarrow> False | Some s \<Rightarrow> s \<noteq> [])"

definition emit :: "effect \<Rightarrow> ChatInterface \<Rightarrow> ChatInterface" where
  "emit e c = c\<lparr>effects := effects c @ [e]\<rparr>"

subsection \<open>Template literals\<close>

fun show_nat :: "nat \<Rightarrow> string" where
  "show_nat n =
     (if n < 10 then [char_of (48 + n)]
      else show_nat (n div 10) @ [char_of (48 + n mod 10)])"

declare show_nat.simps [simp del]

definition show_int :: "int \<Rightarrow> string" where
  "show_int i = (if i < 0 then CHR ''-'' # show_nat (nat (- i)) else show_nat (nat i))"

definition sessions_url :: string where
  "sessions_url = ''http://127.0.0.1:8000/api/chat/sessions/''"

definition create_url :: string where
  "create_url = ''http://127.0.0.1:8000/api/chat/sessions/create/''"

definition messages_url :: "int \<Rightarrow> string" where
  "messages_url sid = ''http://127.0.0.1:8000/api/chat/sessions/'' @ show_int sid @ ''/messages/''"

definition send_url :: "int \<Rightarrow> string" where
  "send_url sid = ''http://127.0.0.1:8000/api/chat/sessions/'' @ show_int sid @ ''/send/''"

definition ws_url :: "int \<Rightarrow> string \<Rightarrow> string" where
  "ws_url sid accessToken =
     ''ws://127.0.0.1:8000/ws/chat/'' @ show_int sid @ ''/?token='' @ accessToken"

subsection \<open>parseMetadata\<close>

text \<open>
  \<open>parseMetadata_traced\<close> follows the source line by line and returns, with the
  result, the arguments of the calls to \<open>JSON.parse\<close> it made. The \<open>catch\<close> block
  is the \<open>None\<close> branch; \<open>md\<close> is the parameter \<open>metadata\<close>.
\<close>

definition parseMetadata_traced :: "js \<Rightarrow> js \<times> string list" where
  "parseMetadata_traced md =
     (if \<not> truthy md then (Obj [], [])
      else
        (case md of
           Str s \<Rightarrow>
             (case JSON_parse s of
                Some parsed \<Rightarrow> (parsed, [s])
              | None \<Rightarrow> (Obj [], [s]))
         | _ \<Rightarrow> (md, [])))"

definition parseMetadata :: "js \<Rightarrow> js" where
  "parseMetadata md = fst (parseMetadata_traced md)"

subsection \<open>Effects and their dependencies\<close>

text \<open>
  \<open>fetchSessions\<close> and \<open>fetchMessages\<close> up to their first \<open>await\<close>, and after it.
  \<open>fetchSessions\<close> reads the \<open>selectedSessionId\<close> of the render that created it
  (\<open>captured\<close>).
\<close>

definition fetchSessions_start :: "ChatInterface \<Rightarrow> ChatInterface" where
  "fetchSessions_start c =
     emit (HttpRequest ''GET'' sessions_url Undefined)
       (c\<lparr>loadingSessions := True, errorSessions := None\<rparr>)"

definition fetchMessages_start :: "ChatInterface \<Rightarrow> ChatInterface" where
  "fetchMessages_start c =
     (case selectedSessionId c of
        None \<Rightarrow> c\<lparr>messages := []\<rparr>
      | Some sid \<Rightarrow>
          emit (HttpRequest ''GET'' (messages_url sid) Undefined)
            (c\<lparr>loadingMessages := True, errorMessages := None\<rparr>))"

definition fetchMessages_done :: "ChatMessage list fetched \<Rightarrow> ChatInterface \<Rightarrow> ChatInterface" where
  "fetchMessages_done outcome c =
     (case outcome of
        Ok data \<Rightarrow>
          c\<lparr>messages := map (\<lambda>msg. msg\<lparr>metadata := parseMetadata (metadata msg)\<rparr>) data,
            loadingMessages := False\<rparr>
      | failure \<Rightarrow>
          c\<lparr>errorMessages := caught ''detail'' ''Failed to fetch messages.'' outcome,
            loadingMessages := False\<rparr>)"

text \<open>
  The socket effect, with dependency array \<open>[selectedSessionId]\<close>, and the cleanup it
  returns when it reaches its end.
\<close>

definition close_current :: "ChatInterface \<Rightarrow> ChatInterface" where
  "close_current c = (case ws c of None \<Rightarrow> c | Some s \<Rightarrow> emit (WsClose s) c)"

definition ws_effect :: "ChatInterface \<Rightarrow> ChatInterface" where
  "ws_effect c =
     (case selectedSessionId c of
        None \<Rightarrow> (close_current c)\<lparr>ws_cleanup := False\<rparr>
      | Some sid \<Rightarrow>
          (case access_token c of
             None \<Rightarrow> c\<lparr>ws_cleanup := False\<rparr>
           | Some accessToken \<Rightarrow>
               if accessToken = [] then c\<lparr>ws_cleanup := False\<rparr>
               else
                 emit (WsOpen (sockets c) (ws_url sid accessToken))
                   ((close_current c)\<lparr>ws := Some (sockets c), sockets := Suc (sockets c),
                      ws_cleanup := True\<rparr>)))"

definition ws_effect_cleanup :: "ChatInterface \<Rightarrow> ChatInterface" where
  "ws_effect_cleanup c = (if ws_cleanup c then close_current c else c)"

text \<open>
  React runs an effect after a render only when a value of its dependency array has
  changed since the previous render, and runs the cleanup of its previous run first. The
  three effects of the component that reach the outside world depend on
  \<open>selectedSessionId\<close> (two of them through the \<open>useCallback\<close> that creates
  \<open>fetchSessions\<close> and \<open>fetchMessages\<close>) and on the \<open>fetchWithAuth\<close> prop, which no
  handler of the component changes. \<open>commit prev c\<close> is the render that follows state
  updates which took \<open>selectedSessionId\<close> from \<open>prev\<close> to its value in \<open>c\<close>: with
  the value unchanged, no effect runs.
\<close>

definition commit :: "int option \<Rightarrow> ChatInterface \<Rightarrow> ChatInterface" where
  "commit prev c =
     (if selectedSessionId c = prev then c
      else ws_effect (fetchMessages_start (fetchSessions_start (ws_effect_cleanup c))))"

definition setSelectedSessionId :: "int option \<Rightarrow> ChatInterface \<Rightarrow> ChatInterface" where
  "setSelectedSessionId v c = commit (selectedSessionId c) (c\<lparr>selectedSessionId := v\<rparr>)"

definition mount :: "ChatInterface \<Rightarrow> ChatInterface" where
  "mount c = ws_effect (fetchMessages_start (fetchSessions_start c))"

definition fetchSessions_done ::
  "int option \<Rightarrow> ChatSession list fetched \<Rightarrow> ChatInterface \<Rightarrow> ChatInterface" where
  "fetchSessions_done captured outcome c =
     (case outcome of
        Ok data \<Rightarrow>
          (let c1 = c\<lparr>sessions := data, loadingSessions := False\<rparr>
           in case data of
                [] \<Rightarrow> setSelectedSessionId None c1
              | s # rest \<Rightarrow>
                  if captured = None then setSelectedSessionId (Some (session_id s)) c1
                  else c1)
      | failure \<Rightarrow>
          c\<lparr>errorSessions := caught ''detail'' ''Failed to fetch chat sessions.'' outcome,
            loadingSessions := False\<rparr>)"

subsection \<open>The socket handlers\<close>

text \<open>
  \<open>onmessage\<close>: the data of the event does not parse (or is \<open>null\<close>), and the
  \<open>catch\<close> block logs it; or it is a \<open>ChatMessage\<close>, alone or under the key
  \<open>message\<close> of an envelope (\<open>receivedData.message || receivedData\<close>). The
  handler casts what it receives to \<open>ChatMessage\<close>; data of another shape is outside
  this model. \<open>add_received\<close> is the function the handler gives to \<open>setMessages\<close>.
\<close>

datatype ws_payload = Malformed | Enveloped ChatMessage | Bare ChatMessage

definition add_received :: "ChatMessage \<Rightarrow> ChatMessage list \<Rightarrow> ChatMessage list" where
  "add_received receivedMessage prev =
     (let exists = list_ex (\<lambda>msg. msg_id msg = msg_id receivedMessage) prev
      in if \<not> exists then
           prev @ [receivedMessage\<lparr>metadata := parseMetadata (metadata receivedMessage)\<rparr>]
         else prev)"

definition ws_onmessage :: "ws_payload \<Rightarrow> ChatInterface \<Rightarrow> ChatInterface" where
  "ws_onmessage payload c =
     (case payload of
        Malformed \<Rightarrow> c
      | Enveloped receivedMessage \<Rightarrow> c\<lparr>messages := add_received receivedMessage (messages c)\<rparr>
      | Bare receivedMessage \<Rightarrow> c\<lparr>messages := add_received receivedMessage (messages c)\<rparr>)"

text \<open>The message a payload hands to \<open>setMessages\<close>, if any.\<close>

fun carried :: "ws_payload \<Rightarrow> ChatMessage list" where
  "carried Malformed = []"
| "carried (Enveloped receivedMessage) = [receivedMessage]"
| "carried (Bare receivedMessage) = [receivedMessage]"

definition ws_onerror :: "ChatInterface \<Rightarrow> ChatInterface" where
  "ws_onerror c =
     c\<lparr>errorMessages :=
         Some ''WebSocket error. Messages might not be real-time. Check backend server and token.''\<rparr>"

text \<open>
  \<open>onclose\<close> of a socket opened for session \<open>sid\<close>, with the code of the close
  event, and the callback of the timer it sets.
\<close>

definition ws_onclose :: "int \<Rightarrow> int \<Rightarrow> ChatInterface \<Rightarrow> ChatInterface" where
  "ws_onclose sid code c = (if code \<noteq> 1000 then emit (SetTimeout 3000 sid) c else c)"

definition reconnect_timer :: "int \<Rightarrow> ChatInterface \<Rightarrow> ChatInterface" where
  "reconnect_timer sid c = setSelectedSessionId (Some sid) c"

subsection \<open>The user's handlers\<close>

definition handleCreateNewSession_start :: "ChatInterface \<Rightarrow> ChatInterface" where
  "handleCreateNewSession_start c =
     emit (HttpRequest ''POST'' create_url (Obj []))
       (c\<lparr>loadingSessions := True, errorSessions := None\<rparr>)"

definition handleCreateNewSession_done :: "ChatSession fetched \<Rightarrow> ChatInterface \<Rightarrow> ChatInterface" where
  "handleCreateNewSession_done outcome c =
     (case outcome of
        Ok newSession \<Rightarrow>
          commit (selectedSessionId c)
            (c\<lparr>sessions := newSession # sessions c,
               selectedSessionId := Some (session_id newSession),
               messages := [], newMessageContent := [], loadingSessions := False\<rparr>)
      | failure \<Rightarrow>
          c\<lparr>errorSessions := caught ''detail'' ''Failed to create new session.'' outcome,
            loadingSessions := False\<rparr>)"

text \<open>
  \<open>String.prototype.trim\<close> removes white space and line terminators from both ends:
  those of ASCII, and, in the UTF-8 bytes of this model, U+00A0, U+1680, U+2000 to
  U+200A, U+2028, U+2029, U+202F, U+205F, U+3000 and U+FEFF. \<open>handleSendMessage\<close>
  reads the clock twice, for \<open>Date.now()\<close> and for \<open>new Date().toISOString()\<close>.
\<close>

definition js_space :: "char \<Rightarrow> bool" where
  "js_space ch = (ch = CHR '' '' \<or> ch = CHR 0x09 \<or> ch = CHR 0x0A \<or> ch = CHR 0x0B
     \<or> ch = CHR 0x0C \<or> ch = CHR 0x0D)"

definition wide_spaces :: "string list" where
  "wide_spaces =
     [[CHR 0xC2, CHR 0xA0], [CHR 0xE1, CHR 0x9A, CHR 0x80], [CHR 0xE2, CHR 0x80, CHR 0x80],
      [CHR 0xE2, CHR 0x80, CHR 0x81], [CHR 0xE2, CHR 0x80, CHR 0x82],
      [CHR 0xE2, CHR 0x80, CHR 0x83], [CHR 0xE2, CHR 0x80, CHR 0x84],
      [CHR 0xE2, CHR 0x80, CHR 0x85], [CHR 0xE2, CHR 0x80, CHR 0x86],
      [CHR 0xE2, CHR 0x80, CHR 0x87], [CHR 0xE2, CHR 0x80, CHR 0x88],
      [CHR 0xE2, CHR 0x80, CHR 0x89], [CHR 0xE2, CHR 0x80, CHR 0x8A],
      [CHR 0xE2, CHR 0x80, CHR 0xA8], [CHR 0xE2, CHR 0x80, CHR 0xA9],
      [CHR 0xE2, CHR 0x80, CHR 0xAF], [CHR 0xE2, CHR 0x81, CHR 0x9F],
      [CHR 0xE3, CHR 0x80, CHR 0x80], [CHR 0xEF, CHR 0xBB, CHR 0xBF]]"

fun trim_start :: "string list \<Rightarrow> string \<Rightarrow> string" where
  "trim_start wide [] = []"
| "trim_start wide (ch # r) =
     (if js_space ch then trim_start wide r
      else if take 2 (ch # r) \<in> set wide then trim_start wide (drop 1 r)
      else if take 3 (ch # r) \<in> set wide then trim_start wide (drop 2 r)
      else ch # r)"

definition trim :: "string \<Rightarrow> string" where
  "trim s = rev (trim_start (map rev wide_spaces) (rev (trim_start wide_spaces s)))"

definition optimistic :: "int \<Rightarrow> string \<Rightarrow> int \<Rightarrow> string \<Rightarrow> ChatMessage" where
  "optimistic now isoString sid text =
     \<lparr>msg_id = now, session = sid, role = User, content = text, timestamp = isoString,
      metadata = Undefined\<rparr>"

definition handleSendMessage_start :: "int \<Rightarrow> string \<Rightarrow> ChatInterface \<Rightarrow> ChatInterface" where
  "handleSendMessage_start now isoString c =
     (case selectedSessionId c of
        None \<Rightarrow> c\<lparr>sendMessageError := Some ''Message cannot be empty or no session selected.''\<rparr>
      | Some sid \<Rightarrow>
          if trim (newMessageContent c) = [] then
            c\<lparr>sendMessageError := Some ''Message cannot be empty or no session selected.''\<rparr>
          else
            (let userMessage = optimistic now isoString sid (newMessageContent c)
             in emit (HttpRequest ''POST'' (send_url sid)
                        (Obj [(''content'', Str (content userMessage))]))
                  (c\<lparr>sendingMessage := True, sendMessageError := None,
                     messages := messages c @ [userMessage], newMessageContent := []\<rparr>)))"

definition handleSendMessage_done :: "int \<Rightarrow> unit fetched \<Rightarrow> ChatInterface \<Rightarrow> ChatInterface" where
  "handleSendMessage_done userMessage_id outcome c =
     (case caught ''error'' ''Failed to send message.'' outcome of
        Some m \<Rightarrow>
          c\<lparr>sendMessageError := Some m,
            messages := filter (\<lambda>msg. msg_id msg \<noteq> userMessage_id) (messages c),
            sendingMessage := False\<rparr>
      | None \<Rightarrow> c\<lparr>sendingMessage := False\<rparr>)"

text \<open>The whole handler, when nothing else happens while it awaits the response.\<close>

definition accepts_send :: "ChatInterface \<Rightarrow> bool" where
  "accepts_send c = (trim (newMessageContent c) \<noteq> [] \<and> selectedSessionId c \<noteq> None)"

definition handleSendMessage ::
  "int \<Rightarrow> string \<Rightarrow> unit fetched \<Rightarrow> ChatInterface \<Rightarrow> ChatInterface" where
  "handleSendMessage now isoString outcome c =
     (if accepts_send c then handleSendMessage_done now outcome (handleSendMessage_start now isoString c)
      else handleSendMessage_start now isoString c)"

subsection \<open>Rendering the messages\<close>

text \<open>
  The message area shows the list only when it is not loading, has no error, a session
  is selected and the list is not empty. For each message shown the render calls
  \<open>parseMetadata\<close> again and shows the sources block under the condition of the source.
\<close>

definition rendered :: "ChatInterface \<Rightarrow> ChatMessage list" where
  "rendered c =
     (if loadingMessages c then []
      else if given (errorMessages c) then []
      else if selectedSessionId c = None then []
      else messages c)"

definition render_parse_calls :: "ChatInterface \<Rightarrow> string list" where
  "render_parse_calls c = concat (map (\<lambda>message. snd (parseMetadata_traced (metadata message))) (rendered c))"

fun is_array :: "js \<Rightarrow> bool" where
  "is_array (Arr xs) = True"
| "is_array v = False"

fun array_items :: "js \<Rightarrow> js list" where
  "array_items (Arr xs) = xs"
| "array_items v = []"

definition sources_block :: "ChatMessage \<Rightarrow> js list option" where
  "sources_block message =
     (let parsedMetadata = parseMetadata (metadata message);
          srcs = js_prop parsedMetadata ''sources''
      in if role message = Ai \<and> truthy parsedMetadata \<and> truthy srcs \<and> is_array srcs
            \<and> length (array_items srcs) > 0
         then Some (array_items srcs) else None)"

subsection \<open>Runs of the component\<close>

text \<open>
  Everything that can happen to a mounted component: a request settles, a socket event
  arrives, a timer fires, the user clicks a session, starts a chat, types or submits, or
  the parent hands down a new \<open>fetchWithAuth\<close> (then the two effects that depend on it
  run again). Events that belong to an earlier render carry what their closure captured.
\<close>

datatype event =
    SessionsSettled "int option" "ChatSession list fetched"
  | MessagesSettled "ChatMessage list fetched"
  | SocketMessage ws_payload
  | SocketError
  | SocketClosed int int
  | TimerFired int
  | ClickSession int
  | ClickNewChat
  | NewChatSettled "ChatSession fetched"
  | Typed string
  | Submit int string
  | SendSettled int "unit fetched"
  | FetchWithAuthChanged

fun step :: "ChatInterface \<Rightarrow> event \<Rightarrow> ChatInterface" where
  "step c (SessionsSettled captured outcome) = fetchSessions_done captured outcome c"
| "step c (MessagesSettled outcome) = fetchMessages_done outcome c"
| "step c (SocketMessage payload) = ws_onmessage payload c"
| "step c SocketError = ws_onerror c"
| "step c (SocketClosed sid code) = ws_onclose sid code c"
| "step c (TimerFired sid) = reconnect_timer sid c"
| "step c (ClickSession sid) = setSelectedSessionId (Some sid) c"
| "step c ClickNewChat = handleCreateNewSession_start c"
| "step c (NewChatSettled outcome) = handleCreateNewSession_done outcome c"
| "step c (Typed text) = c\<lparr>newMessageContent := text\<rparr>"
| "step c (Submit now isoString) = handleSendMessage_start now isoString c"
| "step c (SendSettled userMessage_id outcome) = handleSendMessage_done userMessage_id outcome c"
| "step c FetchWithAuthChanged = fetchMessages_start (fetchSessions_start c)"

definition run :: "ChatInterface \<Rightarrow> event list \<Rightarrow> ChatInterface" where
  "run c evs = foldl step c evs"

text \<open>
  Reading the log: writes to a socket, timers (the only ones the component sets are the
  reconnection attempts of \<open>onclose\<close>), and the close events that are not normal.
\<close>

fun is_ws_send :: "effect \<Rightarrow> bool" where
  "is_ws_send (WsSend sock d) = True"
| "is_ws_send e = False"

fun is_timer :: "effect \<Rightarrow> bool" where
  "is_timer (SetTimeout ms sid) = True"
| "is_timer e = False"

definition reconnect_attempts :: "ChatInterface \<Rightarrow> nat" where
  "reconnect_attempts c = length (filter is_timer (effects c))"

fun abnormal_close :: "event \<Rightarrow> bool" where
  "abnormal_close (SocketClosed sid code) = (code \<noteq> 1000)"
| "abnormal_close ev = False"

text \<open>
  \<open>extends c c'\<close>: the log of \<open>c'\<close> is the log of \<open>c\<close> followed by effects that
  are neither writes to a socket nor timers.
\<close>

definition quiet :: "effect \<Rightarrow> bool" where
  "quiet e = (\<not> is_ws_send e \<and> \<not> is_timer e)"

definition extends :: "ChatInterface \<Rightarrow> ChatInterface \<Rightarrow> bool" where
  "extends c c' = (\<exists>new. effects c' = effects c @ new \<and> list_all quiet new)"

section \<open>The document library (DocumentLibrary.tsx)\<close>

text \<open>
  \<open>Document.status\<close> is declared \<open>string\<close>. The table gives the status cell one of
  three classes.
\<close>

definition status_badge :: "string \<Rightarrow> string" where
  "status_badge status =
     (if status = ''completed'' then ''bg-green-500 text-green-900''
      else if status = ''processing'' then ''bg-yellow-500 text-yellow-900''
      else ''bg-red-500 text-red-900'')"

section \<open>The application shell (App.tsx)\<close>

subsection \<open>Built-ins used by decodeJwt\<close>













subsection \<open>decodeJwt\<close>


subsection \<open>Numbers\<close>









subsection \<open>State and handlers\<close>












section \<open>The producer of messages\<close>

text \<open>
  Whether the metadata of a message, as the client reads it, holds \<open>sources\<close>.
\<close>

definition carries_sources :: "ChatMessage \<Rightarrow> bool" where
  "carries_sources message = (js_prop (parseMetadata (metadata message)) ''sources'' \<noteq> Undefined)"

record passage =
  document_id :: string
  filename :: string
  chunk_position :: nat
  score :: rat

text \<open>
  Modelled from the spec: the entry of \<open>metadata.sources\<close> for a retrieved passage,
  \<open>{document_id, filename, chunk_position, score}\<close> with the score as the index
  returned it (section 3). The server code that builds it is not part of this client.
\<close>

definition citation :: "passage \<Rightarrow> js" where
  "citation p =
     Obj [(''document_id'', Str (document_id p)), (''filename'', Str (filename p)),
          (''chunk_position'', Num (of_nat (chunk_position p))), (''score'', Num (score p))]"

text \<open>
  Modelled from the spec: the metadata of an answer. \<open>sources\<close> is present only on
  \<open>ai\<close> messages that used retrieval context (section 3) and lists exactly the
  passages that were included in the prompt (section 4.3); an answer built on no passage
  has no \<open>sources\<close> (section 8, zero grounding). The server code is not part of this
  client.
\<close>

definition answer_metadata :: "passage list \<Rightarrow> js" where
  "answer_metadata passages =
     (if passages = [] then Undefined else Obj [(''sources'', Arr (map citation passages))])"

datatype completion = Answer string | CompletionFailed

text \<open>
  Modelled from the spec: \<open>generate_answer\<close> of the Generation Orchestrator (section
  4.3), with the ids and timestamps that \<open>append_message\<close> assigns (section 4.4). It
  persists the user's message first; then an \<open>ai\<close> message with the sources of the
  prompt, or, when the completion call fails, a fallback \<open>ai\<close> message with no
  sources. The result is the list of messages it persists, in order. The server code is
  not part of this client.
\<close>

definition generate_answer ::
  "int \<Rightarrow> string \<Rightarrow> int \<times> string \<Rightarrow> int \<times> string \<Rightarrow> string \<Rightarrow> passage list \<Rightarrow> completion
     \<Rightarrow> ChatMessage list" where
  "generate_answer sid user_message first second fallback passages outcome =
     [\<lparr>msg_id = fst first, session = sid, role = User, content = user_message,
       timestamp = snd first, metadata = Undefined\<rparr>,
      (case outcome of
         Answer text \<Rightarrow>
           \<lparr>msg_id = fst second, session = sid, role = Ai, content = text,
            timestamp = snd second, metadata = answer_metadata passages\<rparr>
       | CompletionFailed \<Rightarrow>
           \<lparr>msg_id = fst second, session = sid, role = Ai, content = fallback,
            timestamp = snd second, metadata = Undefined\<rparr>)]"

section \<open>Properties of the chat component\<close>

subsection \<open>Helper lemmas\<close>

lemma parseMetadata_simps:
  "parseMetadata md =
     (if \<not> truthy md then Obj []
      else case md of
             Str s \<Rightarrow> (case JSON_parse s of Some parsed \<Rightarrow> parsed | None \<Rightarrow> Obj [])
           | _ \<Rightarrow> md)"
  by (cases md) (auto simp: parseMetadata_def parseMetadata_traced_def split: option.splits)

lemma JSON_parse_empty: "JSON_parse [] = None"
  by (simp add: JSON_parse_def skip_ws_def)

lemma add_received_known:
  "msg_id m \<in> set (map msg_id prev) \<Longrightarrow> add_received m prev = prev"
  by (force simp: add_received_def list_ex_iff)

lemma add_received_new:
  "msg_id m \<notin> set (map msg_id prev) \<Longrightarrow>
     map msg_id (add_received m prev) = map msg_id prev @ [msg_id m]"
  by (force simp: add_received_def list_ex_iff image_iff)

lemma add_received_distinct:
  "distinct (map msg_id prev) \<Longrightarrow> distinct (map msg_id (add_received m prev))"
  using add_received_known [of m prev] add_received_new [of m prev]
  by (cases "msg_id m \<in> set (map msg_id prev)") simp_all

lemma add_received_ids:
  "set (map msg_id (add_received m prev)) = insert (msg_id m) (set (map msg_id prev))"
  using add_received_known [of m prev] add_received_new [of m prev]
  by (cases "msg_id m \<in> set (map msg_id prev)") (simp_all add: insert_absorb)

lemma ws_onmessage_distinct:
  "distinct (map msg_id (messages c)) \<Longrightarrow> distinct (map msg_id (messages (ws_onmessage p c)))"
  by (cases p) (simp_all add: ws_onmessage_def add_received_distinct)

lemma ws_onmessage_ids:
  "set (map msg_id (messages (ws_onmessage p c))) =
     set (map msg_id (carried p)) \<union> set (map msg_id (messages c))"
  by (cases p) (simp_all add: ws_onmessage_def add_received_ids del: set_map)

lemma pushes_distinct:
  "distinct (map msg_id (messages c)) \<Longrightarrow>
     distinct (map msg_id (messages (run c (map SocketMessage ps))))"
  by (induction ps arbitrary: c) (simp_all add: run_def ws_onmessage_distinct)

lemma pushes_ids:
  "set (map msg_id (messages (run c (map SocketMessage ps)))) =
     set (map msg_id (concat (map carried ps))) \<union> set (map msg_id (messages c))"
proof (induction ps arbitrary: c)
  case Nil
  then show ?case by (simp add: run_def)
next
  case (Cons p ps)
  have "run c (map SocketMessage (p # ps)) = run (ws_onmessage p c) (map SocketMessage ps)"
    by (simp add: run_def)
  then show ?case
    using Cons.IH [of "ws_onmessage p c"] ws_onmessage_ids [of p c]
    by (simp del: set_map add: Un_assoc Un_left_commute Un_commute)
qed

lemma add_received_count:
  "count_list (map msg_id (add_received m prev)) x =
     (if x \<in> set (map msg_id prev) then count_list (map msg_id prev) x
      else if x = msg_id m then 1 else 0)"
proof (cases "msg_id m \<in> set (map msg_id prev)")
  case True
  then show ?thesis
    by (auto simp: add_received_known count_list_0_iff simp del: set_map)
next
  case False
  then show ?thesis
    using add_received_new [OF False]
    by (auto simp: count_list_0_iff simp del: set_map)
qed

lemma ws_onmessage_count:
  "count_list (map msg_id (messages (ws_onmessage p c))) x =
     (if x \<in> set (map msg_id (messages c)) then count_list (map msg_id (messages c)) x
      else if x \<in> set (map msg_id (carried p)) then 1 else 0)"
  by (cases p) (simp_all add: ws_onmessage_def add_received_count count_list_0_iff del: set_map)

lemma pushes_count:
  "count_list (map msg_id (messages (run c (map SocketMessage ps)))) x =
     (if x \<in> set (map msg_id (messages c)) then count_list (map msg_id (messages c)) x
      else if x \<in> set (map msg_id (concat (map carried ps))) then 1 else 0)"
proof (induction ps arbitrary: c)
  case Nil
  then show ?case by (simp add: run_def count_list_0_iff del: set_map)
next
  case (Cons p ps)
  have r: "run c (map SocketMessage (p # ps)) = run (ws_onmessage p c) (map SocketMessage ps)"
    by (simp add: run_def)
  have ids: "set (map msg_id (messages (ws_onmessage p c))) =
     set (map msg_id (carried p)) \<union> set (map msg_id (messages c))"
    by (rule ws_onmessage_ids)
  have split: "set (map msg_id (concat (map carried (p # ps)))) =
     set (map msg_id (carried p)) \<union> set (map msg_id (concat (map carried ps)))"
    by simp
  show ?case
    unfolding r Cons.IH [of "ws_onmessage p c"] ids split ws_onmessage_count [of p c x]
    by (simp del: set_map set_concat map_concat)
qed

lemma count_list_distinct:
  "distinct xs \<Longrightarrow> x \<in> set xs \<Longrightarrow> count_list xs x = 1"
  by (induction xs) auto

subsection \<open>What a step adds to the log\<close>

lemma extends_refl: "effects c' = effects c \<Longrightarrow> extends c c'"
  by (simp add: extends_def)

lemma extends_trans: "extends a b \<Longrightarrow> extends b c \<Longrightarrow> extends a c"
  by (auto simp: extends_def)

lemma extends_emit: "quiet e \<Longrightarrow> extends c (emit e c)"
  by (simp add: extends_def emit_def)

lemma extends_close_current: "extends c (close_current c)"
  by (auto simp: close_current_def extends_emit extends_refl quiet_def split: option.splits)

lemma extends_ws_effect_cleanup: "extends c (ws_effect_cleanup c)"
  by (simp add: ws_effect_cleanup_def extends_close_current extends_refl)

lemma extends_fetchSessions_start: "extends c (fetchSessions_start c)"
  by (simp add: fetchSessions_start_def extends_def emit_def quiet_def)

lemma extends_fetchMessages_start: "extends c (fetchMessages_start c)"
  by (simp add: fetchMessages_start_def extends_def emit_def quiet_def split: option.splits)

lemma extends_ws_effect: "extends c (ws_effect c)"
  using extends_close_current [of c]
  by (auto simp: ws_effect_def extends_def emit_def quiet_def split: option.splits)

lemma extends_commit: "extends c (commit prev c)"
  unfolding commit_def
  by (auto intro: extends_refl extends_trans [OF extends_ws_effect_cleanup]
      extends_trans [OF extends_fetchSessions_start]
      extends_trans [OF extends_fetchMessages_start] extends_ws_effect)

lemma extends_setSelectedSessionId: "extends c (setSelectedSessionId v c)"
proof -
  have "extends (c\<lparr>selectedSessionId := v\<rparr>) (setSelectedSessionId v c)"
    unfolding setSelectedSessionId_def by (rule extends_commit)
  then show ?thesis by (simp add: extends_def)
qed

lemma step_effects:
  "\<exists>new. effects (step c ev) = effects c @ new \<and> list_all (\<lambda>e. \<not> is_ws_send e) new
     \<and> length (filter is_timer new) = (if abnormal_close ev then 1 else 0)"
proof -
  have q: "extends c c' \<Longrightarrow> \<exists>new. effects c' = effects c @ new \<and> list_all (\<lambda>e. \<not> is_ws_send e) new
     \<and> length (filter is_timer new) = 0" for c'
    by (auto simp: extends_def quiet_def list_all_iff filter_empty_conv)
  show ?thesis
  proof (cases ev)
    case (SocketClosed sid code)
    then show ?thesis by (simp add: ws_onclose_def emit_def)
  next
    case (SessionsSettled captured outcome)
    have "extends c (fetchSessions_done captured outcome c)"
      using extends_setSelectedSessionId [of "c\<lparr>sessions := x, loadingSessions := False\<rparr>" for x]
      by (auto simp: fetchSessions_done_def extends_def Let_def split: fetched.splits list.splits)
    with q SessionsSettled show ?thesis by simp
  next
    case (MessagesSettled outcome)
    have "extends c (fetchMessages_done outcome c)"
      by (auto simp: fetchMessages_done_def extends_def split: fetched.splits)
    with q MessagesSettled show ?thesis by simp
  next
    case (SocketMessage p)
    have "extends c (ws_onmessage p c)"
      by (auto simp: ws_onmessage_def extends_def split: ws_payload.splits)
    with q SocketMessage show ?thesis by simp
  next
    case SocketError
    have "extends c (ws_onerror c)" by (simp add: ws_onerror_def extends_def)
    with q SocketError show ?thesis by simp
  next
    case (TimerFired sid)
    with q extends_setSelectedSessionId show ?thesis by (simp add: reconnect_timer_def)
  next
    case (ClickSession sid)
    with q extends_setSelectedSessionId show ?thesis by simp
  next
    case ClickNewChat
    have "extends c (handleCreateNewSession_start c)"
      by (simp add: handleCreateNewSession_start_def extends_def emit_def quiet_def)
    with q ClickNewChat show ?thesis by simp
  next
    case (NewChatSettled outcome)
    have "extends c (handleCreateNewSession_done outcome c)"
      using extends_commit [of "c\<lparr>sessions := a, selectedSessionId := b,
                    messages := [], newMessageContent := [], loadingSessions := False\<rparr>" for a b]
      by (auto simp: handleCreateNewSession_done_def extends_def split: fetched.splits)
    with q NewChatSettled show ?thesis by simp
  next
    case (Typed t)
    have "extends c (c\<lparr>newMessageContent := t\<rparr>)" by (simp add: extends_def)
    with q Typed show ?thesis by simp
  next
    case (Submit now isoString)
    have "extends c (handleSendMessage_start now isoString c)"
      by (auto simp: handleSendMessage_start_def extends_def emit_def quiet_def Let_def split: option.splits)
    with q Submit show ?thesis by simp
  next
    case (SendSettled i outcome)
    have "extends c (handleSendMessage_done i outcome c)"
      by (auto simp: handleSendMessage_done_def extends_def split: option.splits)
    with q SendSettled show ?thesis by simp
  next
    case FetchWithAuthChanged
    have "extends c (fetchMessages_start (fetchSessions_start c))"
      by (rule extends_trans [OF extends_fetchSessions_start extends_fetchMessages_start])
    with q FetchWithAuthChanged show ?thesis by simp
  qed
qed

lemma run_effects:
  "\<exists>new. effects (run c evs) = effects c @ new \<and> list_all (\<lambda>e. \<not> is_ws_send e) new
     \<and> length (filter is_timer new) = length (filter abnormal_close evs)"
proof (induction evs arbitrary: c)
  case Nil
  then show ?case by (simp add: run_def)
next
  case (Cons ev evs)
  obtain n1 where n1: "effects (step c ev) = effects c @ n1"
      "list_all (\<lambda>e. \<not> is_ws_send e) n1"
      "length (filter is_timer n1) = (if abnormal_close ev then 1 else 0)"
    using step_effects [of c ev] by blast
  obtain n2 where n2: "effects (run (step c ev) evs) = effects (step c ev) @ n2"
      "list_all (\<lambda>e. \<not> is_ws_send e) n2"
      "length (filter is_timer n2) = length (filter abnormal_close evs)"
    using Cons.IH [of "step c ev"] by blast
  have "run c (ev # evs) = run (step c ev) evs"
    by (simp add: run_def)
  with n1 n2 have "effects (run c (ev # evs)) = effects c @ (n1 @ n2)
      \<and> list_all (\<lambda>e. \<not> is_ws_send e) (n1 @ n2)
      \<and> length (filter is_timer (n1 @ n2)) = length (filter abnormal_close (ev # evs))"
    by simp
  then show ?case by blast
qed

lemma attempts_count:
  "reconnect_attempts (run c evs) = reconnect_attempts c + length (filter abnormal_close evs)"
  using run_effects [of c evs] by (auto simp: reconnect_attempts_def)

lemma failed_send_filters:
  "accepts_send c \<Longrightarrow> outcome \<noteq> Ok () \<Longrightarrow>
     messages (handleSendMessage now isoString outcome c) = filter (\<lambda>msg. msg_id msg \<noteq> now) (messages c)
     \<and> sendMessageError (handleSendMessage now isoString outcome c)
         = caught ''error'' ''Failed to send message.'' outcome
     \<and> caught ''error'' ''Failed to send message.'' outcome \<noteq> None"
  by (cases outcome)
     (auto simp: handleSendMessage_def handleSendMessage_done_def handleSendMessage_start_def
        accepts_send_def caught_def emit_def optimistic_def)

lemma parseMetadata_string_iff:
  "is_string (parseMetadata md) = (\<exists>s t. md = Str s \<and> JSON_parse s = Some (Str t))"
proof (cases md)
  case (Str s)
  show ?thesis
  proof (cases "JSON_parse s")
    case None
    with Str show ?thesis by (simp add: parseMetadata_simps)
  next
    case (Some v)
    then have "s \<noteq> []" using JSON_parse_empty by auto
    with Str Some show ?thesis by (cases v) (simp_all add: parseMetadata_simps)
  qed
qed (simp_all add: parseMetadata_simps)

lemma traced_calls:
  "snd (parseMetadata_traced md) = (case md of Str s \<Rightarrow> if s = [] then [] else [s] | _ \<Rightarrow> [])"
  by (cases md) (auto simp: parseMetadata_traced_def split: option.splits)

lemma traced_calls_nonstring: "\<not> is_string md \<Longrightarrow> snd (parseMetadata_traced md) = []"
  by (cases md) (simp_all add: traced_calls)

lemma sources_block_iff:
  "(sources_block message = Some xs)
     = (role message = Ai \<and> xs \<noteq> []
        \<and> js_prop (parseMetadata (metadata message)) ''sources'' = Arr xs)"
proof (cases "js_prop (parseMetadata (metadata message)) ''sources''")
  case (Arr ys)
  then obtain fs where "parseMetadata (metadata message) = Obj fs"
    by (cases "parseMetadata (metadata message)") simp_all
  with Arr show ?thesis
    by (auto simp: sources_block_def Let_def)
qed (auto simp: sources_block_def Let_def)

lemma generated_sources:
  "m \<in> set (generate_answer sid question first second fallback passages outcome) \<Longrightarrow>
     carries_sources m \<Longrightarrow> role m = Ai"
  by (auto simp: generate_answer_def carries_sources_def parseMetadata_simps
      split: completion.splits)








subsection \<open>Realtime delivery\<close>

text \<open>
  Claim C1. A message pushed over the socket whose id is already in the message list
  leaves the state as it is, under either shape of the payload. Hence, from a list
  without repeated ids, any sequence of pushes (the same message any number of times)
  gives a list without repeated ids in which the id of every pushed message occurs
  exactly once. From any list, the pushes leave the number of occurrences of an id that
  was in the list as it was, and give exactly one occurrence to a pushed id that was not.
\<close>

theorem duplicate_push_ignored:
  "(msg_id m \<in> set (map msg_id (messages c)) \<longrightarrow>
      ws_onmessage (Bare m) c = c \<and> ws_onmessage (Enveloped m) c = c)
   \<and> (distinct (map msg_id (messages c)) \<longrightarrow>
        distinct (map msg_id (messages (run c (map SocketMessage ps))))
        \<and> (\<forall>r \<in> set (concat (map carried ps)).
             count_list (map msg_id (messages (run c (map SocketMessage ps)))) (msg_id r) = 1))
   \<and> count_list (map msg_id (messages (run c (map SocketMessage ps)))) x =
       (if x \<in> set (map msg_id (messages c)) then count_list (map msg_id (messages c)) x
        else if x \<in> set (map msg_id (concat (map carried ps))) then 1 else 0)"
proof (intro conjI impI ballI)
  assume known: "msg_id m \<in> set (map msg_id (messages c))"
  show "ws_onmessage (Bare m) c = c"
    by (simp add: ws_onmessage_def add_received_known [OF known])
  show "ws_onmessage (Enveloped m) c = c"
    by (simp add: ws_onmessage_def add_received_known [OF known])
next
  assume d: "distinct (map msg_id (messages c))"
  show "distinct (map msg_id (messages (run c (map SocketMessage ps))))"
    by (rule pushes_distinct [OF d])
next
  fix r
  assume d: "distinct (map msg_id (messages c))"
    and r: "r \<in> set (concat (map carried ps))"
  from r have "msg_id r \<in> set (map msg_id (concat (map carried ps)))"
    by (simp del: set_concat)
  then have "msg_id r \<in> set (map msg_id (messages (run c (map SocketMessage ps))))"
    unfolding pushes_ids [of c ps] by blast
  then show "count_list (map msg_id (messages (run c (map SocketMessage ps)))) (msg_id r) = 1"
    by (rule count_list_distinct [OF pushes_distinct [OF d]])
next
  show "count_list (map msg_id (messages (run c (map SocketMessage ps)))) x =
       (if x \<in> set (map msg_id (messages c)) then count_list (map msg_id (messages c)) x
        else if x \<in> set (map msg_id (concat (map carried ps))) then 1 else 0)"
    by (rule pushes_count)
qed

theorem duplicate_push_ignored_witness:
  "msg_id \<lparr>msg_id = 7, session = 1, role = Ai, content = ''a'', timestamp = ''t'',
            metadata = Undefined\<rparr>
     \<in> set (map msg_id (messages ((initial None)\<lparr>messages :=
          [\<lparr>msg_id = 7, session = 1, role = Ai, content = ''a'', timestamp = ''t'',
            metadata = Undefined\<rparr>]\<rparr>)))
   \<and> distinct (map msg_id (messages ((initial None)\<lparr>messages :=
          [\<lparr>msg_id = 7, session = 1, role = Ai, content = ''a'', timestamp = ''t'',
            metadata = Undefined\<rparr>]\<rparr>)))
   \<and> ws_onmessage
        (Bare \<lparr>msg_id = 7, session = 1, role = Ai, content = ''a'', timestamp = ''t'',
               metadata = Undefined\<rparr>)
        ((initial None)\<lparr>messages :=
          [\<lparr>msg_id = 7, session = 1, role = Ai, content = ''a'', timestamp = ''t'',
            metadata = Undefined\<rparr>]\<rparr>)
      = (initial None)\<lparr>messages :=
          [\<lparr>msg_id = 7, session = 1, role = Ai, content = ''a'', timestamp = ''t'',
            metadata = Undefined\<rparr>]\<rparr>
   \<and> distinct (map msg_id (messages (run ((initial None)\<lparr>messages :=
          [\<lparr>msg_id = 7, session = 1, role = Ai, content = ''a'', timestamp = ''t'',
            metadata = Undefined\<rparr>]\<rparr>)
        (map SocketMessage
          [Bare \<lparr>msg_id = 8, session = 1, role = Ai, content = ''b'', timestamp = ''u'',
                 metadata = Undefined\<rparr>,
           Enveloped \<lparr>msg_id = 8, session = 1, role = Ai, content = ''b'', timestamp = ''u'',
                 metadata = Undefined\<rparr>]))))"
  using duplicate_push_ignored
    [of "\<lparr>msg_id = 7, session = 1, role = Ai, content = ''a'', timestamp = ''t'',
          metadata = Undefined\<rparr>"
        "(initial None)\<lparr>messages :=
          [\<lparr>msg_id = 7, session = 1, role = Ai, content = ''a'', timestamp = ''t'',
            metadata = Undefined\<rparr>]\<rparr>"
        "[Bare \<lparr>msg_id = 8, session = 1, role = Ai, content = ''b'', timestamp = ''u'',
                 metadata = Undefined\<rparr>,
           Enveloped \<lparr>msg_id = 8, session = 1, role = Ai, content = ''b'', timestamp = ''u'',
                 metadata = Undefined\<rparr>]"]
  by (simp add: initial_def)

subsection \<open>Message metadata\<close>

text \<open>
  Claim C10, as amended. \<open>parseMetadata\<close> returns the empty object for \<open>undefined\<close>
  and for a string that is not valid JSON (the \<open>catch\<close> block), the value
  \<open>JSON.parse\<close> gives for a valid JSON string, and an object as it is. A second
  application returns the result of the first whenever that result is truthy and not
  a string, as every object is. Every falsy value, the empty string among them, gives
  the empty object.
\<close>

theorem parseMetadata_cases:
  "parseMetadata Undefined = Obj []
   \<and> (JSON_parse s1 = None \<longrightarrow> parseMetadata (Str s1) = Obj [])
   \<and> (JSON_parse s2 = Some v \<longrightarrow> parseMetadata (Str s2) = v)
   \<and> parseMetadata (Obj fs) = Obj fs
   \<and> (truthy (parseMetadata md) \<and> \<not> is_string (parseMetadata md) \<longrightarrow>
        parseMetadata (parseMetadata md) = parseMetadata md)
   \<and> (\<not> truthy falsy \<longrightarrow> parseMetadata falsy = Obj [])"
proof (intro conjI impI)
  show "parseMetadata Undefined = Obj []"
    by (simp add: parseMetadata_simps)
  show "parseMetadata (Str s1) = Obj []" if "JSON_parse s1 = None"
    using that by (simp add: parseMetadata_simps)
  show "parseMetadata (Str s2) = v" if "JSON_parse s2 = Some v"
    using that by (cases "s2 = []") (simp_all add: parseMetadata_simps JSON_parse_empty)
  show "parseMetadata (Obj fs) = Obj fs"
    by (simp add: parseMetadata_simps)
  show "parseMetadata (parseMetadata md) = parseMetadata md"
    if "truthy (parseMetadata md) \<and> \<not> is_string (parseMetadata md)"
    using that by (cases "parseMetadata md") (simp_all add: parseMetadata_simps)
  show "parseMetadata falsy = Obj []" if "\<not> truthy falsy"
    using that by (simp add: parseMetadata_simps)
qed

lemma parse_sources_text:
  "JSON_parse ''{\"sources\": []}'' = Some (Obj [(''sources'', Arr [])])"
  by code_simp

lemma parse_garbage_text: "JSON_parse ''oops'' = None"
  by code_simp

theorem parseMetadata_cases_witness:
  "JSON_parse ''oops'' = None \<and> parseMetadata (Str ''oops'') = Obj []
   \<and> JSON_parse ''{\"sources\": []}'' = Some (Obj [(''sources'', Arr [])])
   \<and> parseMetadata (Str ''{\"sources\": []}'') = Obj [(''sources'', Arr [])]
   \<and> truthy (parseMetadata (Str ''{\"sources\": []}''))
   \<and> \<not> is_string (parseMetadata (Str ''{\"sources\": []}''))
   \<and> parseMetadata (parseMetadata (Str ''{\"sources\": []}'')) = parseMetadata (Str ''{\"sources\": []}'')
   \<and> \<not> truthy (Str []) \<and> parseMetadata (Str []) = Obj []"
  using parseMetadata_cases
    [of "''oops''" "''{\"sources\": []}''" "Obj [(''sources'', Arr [])]" "[]"
        "Str ''{\"sources\": []}''" "Str []"]
  by (simp add: parse_sources_text parse_garbage_text parseMetadata_simps)

text \<open>
  The claim as stated fails: a string that encodes a JSON string is decoded one level
  by each application, so the second application changes the result of the first.
\<close>

lemma parse_quoted_object_text: "JSON_parse ''\"{}\"'' = Some (Str ''{}'')"
  by code_simp

lemma parse_object_text: "JSON_parse ''{}'' = Some (Obj [])"
  by code_simp

theorem parseMetadata_not_idempotent:
  "parseMetadata (parseMetadata (Str ''\"{}\"'')) \<noteq> parseMetadata (Str ''\"{}\"'')"
  by (simp add: parseMetadata_simps parse_quoted_object_text parse_object_text)

text \<open>
  Claim C4, as amended. Both ingress edges apply \<open>parseMetadata\<close> to the metadata of
  every arriving message: the fetch of the messages and the receipt on the socket. What
  is stored is a string exactly when the wire metadata was a string that encodes a JSON
  string. The render applies \<open>parseMetadata\<close> again to every message it shows, and
  calls \<open>JSON.parse\<close> there exactly on the stored metadata that are non-empty
  strings: never, when no stored metadata is a string.
\<close>

theorem metadata_parsed_at_ingress_and_render:
  "messages (fetchMessages_done (Ok data) c)
     = map (\<lambda>msg. msg\<lparr>metadata := parseMetadata (metadata msg)\<rparr>) data
   \<and> (msg_id m \<notin> set (map msg_id (messages c)) \<longrightarrow>
        messages (ws_onmessage (Bare m) c)
          = messages c @ [m\<lparr>metadata := parseMetadata (metadata m)\<rparr>]
        \<and> messages (ws_onmessage (Enveloped m) c)
          = messages c @ [m\<lparr>metadata := parseMetadata (metadata m)\<rparr>])
   \<and> is_string (parseMetadata md) = (\<exists>s t. md = Str s \<and> JSON_parse s = Some (Str t))
   \<and> render_parse_calls c
       = concat (map (\<lambda>message. case metadata message of
                                   Str s \<Rightarrow> if s = [] then [] else [s]
                                 | _ \<Rightarrow> []) (rendered c))
   \<and> ((\<forall>message \<in> set (rendered c). \<not> is_string (metadata message)) \<longrightarrow>
        render_parse_calls c = [])"
proof (intro conjI impI)
  show "messages (fetchMessages_done (Ok data) c)
     = map (\<lambda>msg. msg\<lparr>metadata := parseMetadata (metadata msg)\<rparr>) data"
    by (simp add: fetchMessages_done_def)
next
  assume new: "msg_id m \<notin> set (map msg_id (messages c))"
  then have "add_received m (messages c) = messages c @ [m\<lparr>metadata := parseMetadata (metadata m)\<rparr>]"
    by (force simp: add_received_def list_ex_iff image_iff)
  then show "messages (ws_onmessage (Bare m) c)
          = messages c @ [m\<lparr>metadata := parseMetadata (metadata m)\<rparr>]"
    and "messages (ws_onmessage (Enveloped m) c)
          = messages c @ [m\<lparr>metadata := parseMetadata (metadata m)\<rparr>]"
    by (simp_all add: ws_onmessage_def)
next
  show "is_string (parseMetadata md) = (\<exists>s t. md = Str s \<and> JSON_parse s = Some (Str t))"
    by (rule parseMetadata_string_iff)
next
  show "render_parse_calls c
       = concat (map (\<lambda>message. case metadata message of
                                   Str s \<Rightarrow> if s = [] then [] else [s]
                                 | _ \<Rightarrow> []) (rendered c))"
    by (simp add: render_parse_calls_def traced_calls)
next
  assume "\<forall>message \<in> set (rendered c). \<not> is_string (metadata message)"
  then show "render_parse_calls c = []"
    by (simp add: render_parse_calls_def traced_calls_nonstring)
qed

theorem metadata_parsed_at_ingress_and_render_witness:
  "msg_id \<lparr>msg_id = 9, session = 1, role = Ai, content = ''a'', timestamp = ''t'',
           metadata = Str ''{\"sources\": []}''\<rparr>
     \<notin> set (map msg_id (messages ((initial None)\<lparr>selectedSessionId := Some 1\<rparr>)))
   \<and> messages (ws_onmessage
        (Bare \<lparr>msg_id = 9, session = 1, role = Ai, content = ''a'', timestamp = ''t'',
               metadata = Str ''{\"sources\": []}''\<rparr>)
        ((initial None)\<lparr>selectedSessionId := Some 1\<rparr>))
      = [\<lparr>msg_id = 9, session = 1, role = Ai, content = ''a'', timestamp = ''t'',
          metadata = Obj [(''sources'', Arr [])]\<rparr>]
   \<and> \<not> is_string (metadata \<lparr>msg_id = 9, session = 1, role = Ai, content = ''a'',
          timestamp = ''t'', metadata = Obj [(''sources'', Arr [])]\<rparr>)
   \<and> render_parse_calls ((initial None)\<lparr>selectedSessionId := Some 1, messages :=
        [\<lparr>msg_id = 9, session = 1, role = Ai, content = ''a'', timestamp = ''t'',
          metadata = Obj [(''sources'', Arr [])]\<rparr>]\<rparr>) = []"
  using metadata_parsed_at_ingress_and_render
      [of "[]" "(initial None)\<lparr>selectedSessionId := Some 1\<rparr>"
        "\<lparr>msg_id = 9, session = 1, role = Ai, content = ''a'', timestamp = ''t'',
           metadata = Str ''{\"sources\": []}''\<rparr>" Undefined]
    metadata_parsed_at_ingress_and_render
      [of "[]" "(initial None)\<lparr>selectedSessionId := Some 1, messages :=
        [\<lparr>msg_id = 9, session = 1, role = Ai, content = ''a'', timestamp = ''t'',
          metadata = Obj [(''sources'', Arr [])]\<rparr>]\<rparr>"
        "\<lparr>msg_id = 9, session = 1, role = Ai, content = ''a'', timestamp = ''t'',
           metadata = Str ''{\"sources\": []}''\<rparr>" Undefined]
  by (simp add: initial_def parseMetadata_simps parse_sources_text rendered_def given_def)

text \<open>
  The claim as stated fails: a message pushed with the metadata \<open>"x"\<close> (a JSON
  string) is stored with the string \<open>x\<close> as metadata, and the render calls
  \<open>JSON.parse\<close> on it.
\<close>

lemma parse_quoted_text: "JSON_parse ''\"x\"'' = Some (Str ''x'')"
  by code_simp

theorem string_metadata_reparsed_at_render:
  "messages (ws_onmessage
      (Bare \<lparr>msg_id = 9, session = 1, role = Ai, content = ''a'', timestamp = ''t'',
             metadata = Str ''\"x\"''\<rparr>)
      ((initial None)\<lparr>selectedSessionId := Some 1\<rparr>))
     = [\<lparr>msg_id = 9, session = 1, role = Ai, content = ''a'', timestamp = ''t'',
         metadata = Str ''x''\<rparr>]
   \<and> render_parse_calls (ws_onmessage
      (Bare \<lparr>msg_id = 9, session = 1, role = Ai, content = ''a'', timestamp = ''t'',
             metadata = Str ''\"x\"''\<rparr>)
      ((initial None)\<lparr>selectedSessionId := Some 1\<rparr>)) = [''x'']"
  by (simp add: initial_def ws_onmessage_def add_received_def parseMetadata_simps
      parse_quoted_text render_parse_calls_def rendered_def given_def traced_calls)

text \<open>
  Claim C6. Of the messages the orchestrator persists, only those of role \<open>ai\<close>
  carry sources; the user message the client creates itself has role \<open>user\<close> and no
  sources; and the render shows a sources block exactly for a message of role \<open>ai\<close>
  whose parsed metadata has a non-empty array under \<open>sources\<close>, the block listing
  that array.
\<close>

theorem sources_only_on_ai:
  "(\<forall>m \<in> set (generate_answer sid question first second fallback passages outcome).
      carries_sources m \<longrightarrow> role m = Ai)
   \<and> role (optimistic now isoString sid' typed) = User
   \<and> \<not> carries_sources (optimistic now isoString sid' typed)
   \<and> (sources_block message = Some xs)
       = (role message = Ai \<and> xs \<noteq> []
          \<and> js_prop (parseMetadata (metadata message)) ''sources'' = Arr xs)"
  using generated_sources [of _ sid question first second fallback passages outcome]
  by (auto simp: sources_block_iff optimistic_def carries_sources_def parseMetadata_simps)

theorem sources_only_on_ai_witness:
  "carries_sources
     (generate_answer 1 ''What is the refund window?'' (10, ''t0'') (11, ''t1'') ''Sorry''
        [\<lparr>document_id = ''d1'', filename = ''Example.pdf'', chunk_position = 0, score = 9 / 10\<rparr>]
        (Answer ''30 days'') ! 1)
   \<and> role
     (generate_answer 1 ''What is the refund window?'' (10, ''t0'') (11, ''t1'') ''Sorry''
        [\<lparr>document_id = ''d1'', filename = ''Example.pdf'', chunk_position = 0, score = 9 / 10\<rparr>]
        (Answer ''30 days'') ! 1) = Ai
   \<and> sources_block
     (generate_answer 1 ''What is the refund window?'' (10, ''t0'') (11, ''t1'') ''Sorry''
        [\<lparr>document_id = ''d1'', filename = ''Example.pdf'', chunk_position = 0, score = 9 / 10\<rparr>]
        (Answer ''30 days'') ! 1)
     = Some [Obj [(''document_id'', Str ''d1''), (''filename'', Str ''Example.pdf''),
                  (''chunk_position'', Num 0), (''score'', Num (9 / 10))]]"
  using sources_only_on_ai
    [of 1 "''What is the refund window?''" "(10, ''t0'')" "(11, ''t1'')" "''Sorry''"
        "[\<lparr>document_id = ''d1'', filename = ''Example.pdf'', chunk_position = 0, score = 9 / 10\<rparr>]"
        "Answer ''30 days''" 0 "[]" 0 "[]"
        "generate_answer 1 ''What is the refund window?'' (10, ''t0'') (11, ''t1'') ''Sorry''
        [\<lparr>document_id = ''d1'', filename = ''Example.pdf'', chunk_position = 0, score = 9 / 10\<rparr>]
        (Answer ''30 days'') ! 1"
        "[Obj [(''document_id'', Str ''d1''), (''filename'', Str ''Example.pdf''),
                  (''chunk_position'', Num 0), (''score'', Num (9 / 10))]]"]
  by (simp add: generate_answer_def carries_sources_def parseMetadata_simps answer_metadata_def
      citation_def)

subsection \<open>Sending\<close>

text \<open>
  Claim C7. A send that passes the guard of \<open>handleSendMessage\<close> adds one effect to
  the log: the POST to the send endpoint of the selected session, through
  \<open>fetchWithAuth\<close>, with the typed text as content. And no run of the component, whatever
  the events, writes to a socket.
\<close>

theorem no_socket_writes:
  "(accepts_send c \<and> selectedSessionId c = Some sid \<longrightarrow>
      effects (handleSendMessage_start now isoString c) =
        effects c @ [HttpRequest ''POST'' (send_url sid)
                       (Obj [(''content'', Str (newMessageContent c))])])
   \<and> (list_all (\<lambda>e. \<not> is_ws_send e) (effects c) \<longrightarrow>
        list_all (\<lambda>e. \<not> is_ws_send e) (effects (run c evs)))"
proof (intro conjI impI)
  assume "accepts_send c \<and> selectedSessionId c = Some sid"
  then show "effects (handleSendMessage_start now isoString c) =
        effects c @ [HttpRequest ''POST'' (send_url sid)
                       (Obj [(''content'', Str (newMessageContent c))])]"
    by (simp add: accepts_send_def handleSendMessage_start_def emit_def optimistic_def)
next
  assume "list_all (\<lambda>e. \<not> is_ws_send e) (effects c)"
  then show "list_all (\<lambda>e. \<not> is_ws_send e) (effects (run c evs))"
    using run_effects [of c evs] by auto
qed

lemma send_url_1: "send_url 1 = ''http://127.0.0.1:8000/api/chat/sessions/1/send/''"
  by code_simp

theorem no_socket_writes_witness:
  "accepts_send ((initial (Some ''t''))\<lparr>selectedSessionId := Some 1, newMessageContent := ''hi''\<rparr>)
   \<and> selectedSessionId ((initial (Some ''t''))\<lparr>selectedSessionId := Some 1, newMessageContent := ''hi''\<rparr>) = Some 1
   \<and> effects (handleSendMessage_start 5 ''t0''
        ((initial (Some ''t''))\<lparr>selectedSessionId := Some 1, newMessageContent := ''hi''\<rparr>))
      = [HttpRequest ''POST'' ''http://127.0.0.1:8000/api/chat/sessions/1/send/''
           (Obj [(''content'', Str ''hi'')])]
   \<and> list_all (\<lambda>e. \<not> is_ws_send e)
        (effects ((initial (Some ''t''))\<lparr>selectedSessionId := Some 1, newMessageContent := ''hi''\<rparr>))
   \<and> list_all (\<lambda>e. \<not> is_ws_send e)
        (effects (run ((initial (Some ''t''))\<lparr>selectedSessionId := Some 1, newMessageContent := ''hi''\<rparr>)
           [Submit 5 ''t0'', SendSettled 5 (Ok ()), SocketClosed 1 1006]))"
  using no_socket_writes
    [of "(initial (Some ''t''))\<lparr>selectedSessionId := Some 1, newMessageContent := ''hi''\<rparr>"
        1 5 "''t0''" "[Submit 5 ''t0'', SendSettled 5 (Ok ()), SocketClosed 1 1006]"]
  by (simp add: initial_def accepts_send_def trim_def js_space_def wide_spaces_def send_url_1)

text \<open>
  Claim C8, as amended. When the request of a send fails, the handler sets the error
  message and removes from the list every message whose id is the \<open>Date.now()\<close> of
  the optimistic one. The list is then the list before the call if no message had
  that id.
\<close>

theorem failed_send_restores_list:
  "accepts_send c \<and> outcome \<noteq> Ok () \<longrightarrow>
     messages (handleSendMessage now isoString outcome c)
       = filter (\<lambda>msg. msg_id msg \<noteq> now) (messages c)
     \<and> sendMessageError (handleSendMessage now isoString outcome c)
         = caught ''error'' ''Failed to send message.'' outcome
     \<and> caught ''error'' ''Failed to send message.'' outcome \<noteq> None
     \<and> (now \<notin> set (map msg_id (messages c)) \<longrightarrow>
          messages (handleSendMessage now isoString outcome c) = messages c)"
proof (intro impI)
  assume a: "accepts_send c \<and> outcome \<noteq> Ok ()"
  have "now \<notin> set (map msg_id (messages c)) \<Longrightarrow>
      filter (\<lambda>msg. msg_id msg \<noteq> now) (messages c) = messages c"
    by (induction "messages c") (auto simp: filter_id_conv)
  with a failed_send_filters [of c outcome now isoString] show
    "messages (handleSendMessage now isoString outcome c)
       = filter (\<lambda>msg. msg_id msg \<noteq> now) (messages c)
     \<and> sendMessageError (handleSendMessage now isoString outcome c)
         = caught ''error'' ''Failed to send message.'' outcome
     \<and> caught ''error'' ''Failed to send message.'' outcome \<noteq> None
     \<and> (now \<notin> set (map msg_id (messages c)) \<longrightarrow>
          messages (handleSendMessage now isoString outcome c) = messages c)"
    by simp
qed

theorem failed_send_restores_list_witness:
  "accepts_send ((initial None)\<lparr>selectedSessionId := Some 1, newMessageContent := ''hi'',
       messages := [optimistic 1762142400000 ''2025-11-03T04:00:00.000Z'' 1 ''first'']\<rparr>)
   \<and> (NotOk [(''error'', ''No documents'')] :: unit fetched) \<noteq> Ok ()
   \<and> 1762142460000 \<notin> set (map msg_id (messages ((initial None)\<lparr>selectedSessionId := Some 1,
       newMessageContent := ''hi'', messages := [optimistic 1762142400000 ''2025-11-03T04:00:00.000Z'' 1 ''first'']\<rparr>)))
   \<and> messages (handleSendMessage 1762142460000 ''2025-11-03T04:01:00.000Z'' (NotOk [(''error'', ''No documents'')])
        ((initial None)\<lparr>selectedSessionId := Some 1, newMessageContent := ''hi'',
           messages := [optimistic 1762142400000 ''2025-11-03T04:00:00.000Z'' 1 ''first'']\<rparr>))
      = [optimistic 1762142400000 ''2025-11-03T04:00:00.000Z'' 1 ''first'']
   \<and> sendMessageError (handleSendMessage 1762142460000 ''2025-11-03T04:01:00.000Z'' (NotOk [(''error'', ''No documents'')])
        ((initial None)\<lparr>selectedSessionId := Some 1, newMessageContent := ''hi'',
           messages := [optimistic 1762142400000 ''2025-11-03T04:00:00.000Z'' 1 ''first'']\<rparr>))
      = Some ''No documents''"
  using failed_send_restores_list
    [of "(initial None)\<lparr>selectedSessionId := Some 1, newMessageContent := ''hi'',
           messages := [optimistic 1762142400000 ''2025-11-03T04:00:00.000Z'' 1 ''first'']\<rparr>"
        "NotOk [(''error'', ''No documents'')]" 1762142460000 "''2025-11-03T04:01:00.000Z''"]
  by (simp add: initial_def accepts_send_def trim_def js_space_def wide_spaces_def optimistic_def caught_def
      or_default_def)

text \<open>
  The claim as stated fails when a message in the list already has the id: a first
  message, sent at the clock reading 1762142400000, is in the list; a second send at the
  same reading fails, and the first message is removed with the second.
\<close>

theorem failed_send_removes_earlier_message:
  "messages (handleSendMessage 1762142400000 ''2025-11-03T04:00:00.000Z'' (Threw ''Failed to fetch'')
        ((initial None)\<lparr>selectedSessionId := Some 1, newMessageContent := ''second'',
           messages := [optimistic 1762142400000 ''2025-11-03T04:00:00.000Z'' 1 ''first'']\<rparr>))
     \<noteq> messages ((initial None)\<lparr>selectedSessionId := Some 1, newMessageContent := ''second'',
           messages := [optimistic 1762142400000 ''2025-11-03T04:00:00.000Z'' 1 ''first'']\<rparr>)"
  by (simp add: initial_def handleSendMessage_def handleSendMessage_done_def
      handleSendMessage_start_def accepts_send_def trim_def js_space_def wide_spaces_def optimistic_def
      caught_def emit_def)

subsection \<open>Reconnection\<close>

text \<open>
  Claim C2, as amended. There is no retry cap: in every run the number of timers set
  is the number before plus the number of close events whose code is not 1000, and
  \<open>onclose\<close> sets one timer of 3000 ms for each such event.
\<close>

theorem reconnects_unbounded:
  "reconnect_attempts (run c evs) = reconnect_attempts c + length (filter abnormal_close evs)
   \<and> effects (ws_onclose sid code c) =
       (if code \<noteq> 1000 then effects c @ [SetTimeout 3000 sid] else effects c)"
  by (simp add: attempts_count ws_onclose_def emit_def)

text \<open>
  The claim as stated fails: no bound holds for the reconnection attempts. The user
  goes back and forth between two sessions \<open>n\<close> times, and each socket opened on the
  way closes abnormally.
\<close>

theorem no_retry_cap:
  "\<not> (\<exists>N. \<forall>n. reconnect_attempts
        (run (mount (initial (Some ''t'')))
           (concat (replicate n [ClickSession 1, SocketClosed 1 1006,
                                 ClickSession 2, SocketClosed 2 1006]))) \<le> N)"
proof
  assume "\<exists>N. \<forall>n. reconnect_attempts
        (run (mount (initial (Some ''t'')))
           (concat (replicate n [ClickSession 1, SocketClosed 1 1006,
                                 ClickSession 2, SocketClosed 2 1006]))) \<le> N"
  then obtain N where
    "reconnect_attempts
        (run (mount (initial (Some ''t'')))
           (concat (replicate (Suc N) [ClickSession 1, SocketClosed 1 1006,
                                       ClickSession 2, SocketClosed 2 1006]))) \<le> N"
    by blast
  moreover have "length (filter abnormal_close
      (concat (replicate k [ClickSession 1, SocketClosed 1 1006,
                            ClickSession 2, SocketClosed 2 1006]))) = 2 * k" for k
    by (induction k) simp_all
  ultimately show False
    by (simp add: attempts_count del: replicate_Suc)
qed

text \<open>
  What a change of session looks like in the log, with a token stored and a socket
  open: the cleanup closes the socket, the sessions and the messages are requested, and
  the socket effect closes the old socket once more and opens one for the new session.
\<close>

lemma selecting_another_session:
  "selectedSessionId c \<noteq> Some sid \<Longrightarrow> access_token c = Some tok \<Longrightarrow> tok \<noteq> [] \<Longrightarrow>
     ws c = Some s \<Longrightarrow> ws_cleanup c \<Longrightarrow>
     effects (setSelectedSessionId (Some sid) c)
       = effects c @ [WsClose s, HttpRequest ''GET'' sessions_url Undefined,
                      HttpRequest ''GET'' (messages_url sid) Undefined,
                      WsClose s, WsOpen (sockets c) (ws_url sid tok)]"
  by (simp add: setSelectedSessionId_def commit_def ws_effect_def fetchMessages_start_def
      fetchSessions_start_def ws_effect_cleanup_def close_current_def emit_def)

text \<open>
  Claim C3, on the code. The timer that \<open>onclose\<close> sets calls
  \<open>setSelectedSessionId\<close> with the id of the session that is still selected. No
  dependency array changes, so no effect runs: after an abnormal closure and its timer
  the log has gained the timer alone (no request for the messages, no new socket), and
  \<open>ws.current\<close> is the closed socket.
\<close>

theorem reconnect_timer_does_nothing:
  "selectedSessionId c = Some sid \<and> code \<noteq> 1000 \<longrightarrow>
     reconnect_timer sid c = c
     \<and> effects (run c [SocketClosed sid code, TimerFired sid]) = effects c @ [SetTimeout 3000 sid]
     \<and> ws (run c [SocketClosed sid code, TimerFired sid]) = ws c"
  by (simp add: run_def reconnect_timer_def setSelectedSessionId_def commit_def
      ws_onclose_def emit_def)

theorem reconnect_timer_does_nothing_witness:
  "selectedSessionId (run (mount (initial (Some ''t'')))
      [SessionsSettled None (Ok [\<lparr>session_id = 1, title = ''a'', created_at = ''d''\<rparr>])]) = Some 1
   \<and> (1006::int) \<noteq> 1000
   \<and> effects (run (run (mount (initial (Some ''t'')))
        [SessionsSettled None (Ok [\<lparr>session_id = 1, title = ''a'', created_at = ''d''\<rparr>])])
        [SocketClosed 1 1006, TimerFired 1])
     = effects (run (mount (initial (Some ''t'')))
        [SessionsSettled None (Ok [\<lparr>session_id = 1, title = ''a'', created_at = ''d''\<rparr>])])
       @ [SetTimeout 3000 1]"
  using reconnect_timer_does_nothing
    [of "run (mount (initial (Some ''t'')))
      [SessionsSettled None (Ok [\<lparr>session_id = 1, title = ''a'', created_at = ''d''\<rparr>])]" 1 1006]
  by (simp add: run_def mount_def initial_def fetchSessions_done_def setSelectedSessionId_def
      commit_def ws_effect_def fetchMessages_start_def fetchSessions_start_def emit_def
      ws_effect_cleanup_def close_current_def)

section \<open>Properties of the application shell\<close>




section \<open>Properties of the document library\<close>

text \<open>
  Claim C5, as amended. The status cell is green exactly for \<open>completed\<close>, yellow
  exactly for \<open>processing\<close> and red for every other status, among them \<open>ready\<close>,
  \<open>uploaded\<close> and \<open>failed\<close>.
\<close>

theorem status_badge_classes:
  "(status_badge status = ''bg-green-500 text-green-900'') = (status = ''completed'')
   \<and> (status_badge status = ''bg-yellow-500 text-yellow-900'') = (status = ''processing'')
   \<and> (status_badge status = ''bg-red-500 text-red-900'')
       = (status \<noteq> ''completed'' \<and> status \<noteq> ''processing'')
   \<and> status_badge ''ready'' = ''bg-red-500 text-red-900''
   \<and> status_badge ''uploaded'' = ''bg-red-500 text-red-900''
   \<and> status_badge ''failed'' = ''bg-red-500 text-red-900''"
  by (simp add: status_badge_def)

text \<open>
  The claim as stated fails: \<open>ready\<close> is shown as \<open>failed\<close> is, and not as the
  successful status \<open>completed\<close>.
\<close>

theorem ready_shown_as_failed:
  "status_badge ''ready'' = status_badge ''failed''
   \<and> status_badge ''ready'' \<noteq> status_badge ''completed''"
  by (simp add: status_badge_def)

end
